theory Spec2Isabelle
  imports Complex_Main "HOL-Library.Extended_Nat"
begin

section \<open>The professions listing handler (profession\_handler.go)\<close>

text \<open>
  The query string of a request is an association list; \<open>Query\<close> is fiber's
  \<open>c.Query(key, default)\<close>: the first value stored under the key, and the default when
  the key is absent or its value is empty.
\<close>

type_synonym query = "(string \<times> string) list"

definition Query :: "query \<Rightarrow> string \<Rightarrow> string \<Rightarrow> string" where
  "Query q key dflt =
     (case map_of q key of
        None \<Rightarrow> dflt
      | Some v \<Rightarrow> if v = [] then dflt else v)"

text \<open>
  \<open>strconv.Atoi\<close> of Go's standard library, on a platform whose \<open>int\<close> has 64 bits: an
  optional sign followed by at least one decimal digit. The loop of \<open>ParseUint\<close> reads
  the bytes from the left. It reports a syntax error at the first byte that is not a
  digit and a range error as soon as the number read so far leaves 64 unsigned bits,
  without looking at the bytes that follow. On a syntax error the value is 0; on a range
  error it is the nearest bound of \<open>int64\<close>. The handler discards the error.
\<close>

datatype num_error = ErrSyntax | ErrRange

definition is_digit :: "char \<Rightarrow> bool" where
  "is_digit c = (c \<in> set ''0123456789'')"

definition digit_val :: "char \<Rightarrow> nat" where
  "digit_val c = of_char c - 48"

fun ParseUint :: "nat \<Rightarrow> string \<Rightarrow> nat \<times> num_error option" where
  "ParseUint n [] = (n, None)"
| "ParseUint n (c # cs) =
     (if \<not> is_digit c then (0, Some ErrSyntax)
      else if n \<ge> (2 ^ 64 - 1) div 10 + 1 then (2 ^ 64 - 1, Some ErrRange)
      else (let n1 = n * 10 + digit_val c
            in if n1 > 2 ^ 64 - 1 then (2 ^ 64 - 1, Some ErrRange)
               else ParseUint n1 cs))"

definition Atoi :: "string \<Rightarrow> int \<times> num_error option" where
  "Atoi s =
     (let (neg, ds) =
            (case s of
               [] \<Rightarrow> (False, [])
             | c # r \<Rightarrow>
                 if c = CHR ''-'' then (True, r)
                 else if c = CHR ''+'' then (False, r)
                 else (False, s))
      in if ds = [] then (0, Some ErrSyntax)
         else (case ParseUint 0 ds of
                 (un, err) \<Rightarrow>
                   if err = Some ErrSyntax then (0, Some ErrSyntax)
                   else if \<not> neg \<and> un \<ge> 2 ^ 63 then (2 ^ 63 - 1, Some ErrRange)
                   else if neg \<and> un > 2 ^ 63 then (- (2 ^ 63), Some ErrRange)
                   else (if neg then - int un else int un, None)))"

text \<open>
  Go's \<open>int64\<close> arithmetic: sums and differences wrap around, the quotient truncates
  towards zero, and a zero divisor panics.
\<close>

definition wrap64 :: "int \<Rightarrow> int" where
  "wrap64 x = (x + 2 ^ 63) mod 2 ^ 64 - 2 ^ 63"

definition quot :: "int \<Rightarrow> int \<Rightarrow> int" where
  "quot a b = sgn a * sgn b * (\<bar>a\<bar> div \<bar>b\<bar>)"

datatype go_panic = IntegerDivideByZero

definition int64_div :: "int \<Rightarrow> int \<Rightarrow> go_panic + int" where
  "int64_div a b = (if b = 0 then Inl IntegerDivideByZero else Inr (wrap64 (quot a b)))"

text \<open>The allow-list of sort fields, a Go map from the accepted name to the column.\<close>

definition validSortFields :: "(string \<times> string) list" where
  "validSortFields =
     [(''profession_id'', ''profession_id''),
      (''created_at'', ''created_at''),
      (''profession_name'', ''profession_name''),
      (''meta_pixel'', ''meta_pixel''),
      (''meta_token'', ''meta_token'')]"

text \<open>
  Lines 20 to 44 of the handler: the values read from the query and the order-by
  expression built from them.
\<close>

record list_request =
  req_page :: int
  req_limit :: int
  req_sortBy :: string
  req_sortDirection :: string
  req_orderBy :: string

definition parse_request :: "query \<Rightarrow> list_request" where
  "parse_request q =
     (let page = fst (Atoi (Query q ''page'' ''1''));
          limit = fst (Atoi (Query q ''limit'' ''10''));
          sortBy = Query q ''sortBy'' ''created_at'';
          sortDirection0 = Query q ''sortDirection'' ''desc'';
          sortDirection =
            (if sortDirection0 \<noteq> ''asc'' \<and> sortDirection0 \<noteq> ''desc''
             then ''desc'' else sortDirection0);
          orderBy =
            (case map_of validSortFields sortBy of
               Some field \<Rightarrow> field @ '' '' @ sortDirection
             | None \<Rightarrow> ''created_at desc'')
      in \<lparr>req_page = page, req_limit = limit, req_sortBy = sortBy,
          req_sortDirection = sortDirection, req_orderBy = orderBy\<rparr>)"

text \<open>
  The response. The use case behind the handler is a parameter: given page, limit and
  the order-by expression it returns an error message or the rows with their total.
\<close>

text \<open>
  Modelled from the spec: the helper \<open>getKeys\<close> that fills \<open>valid_sort_fields\<close> is not
  among the source files. It is taken to return the keys of the map; a Go map has no
  order, so they are kept as a set.
\<close>

definition getKeys :: "(string \<times> string) list \<Rightarrow> string set" where
  "getKeys m = fst ` set m"

record meta =
  meta_total :: int
  meta_page :: int
  meta_limit :: int
  meta_last_page :: int
  meta_sort_by :: string
  meta_sort_direction :: string
  meta_valid_sort_fields :: "string set"

datatype 'p response = InternalServerError string | JSON "'p list" meta

type_synonym 'p usecase = "int \<Rightarrow> int \<Rightarrow> string \<Rightarrow> string + ('p list \<times> int)"

definition GetProfessions :: "'p usecase \<Rightarrow> query \<Rightarrow> go_panic + 'p response" where
  "GetProfessions uc q =
     (let r = parse_request q
      in case uc (req_page r) (req_limit r) (req_orderBy r) of
           Inl err \<Rightarrow> Inr (InternalServerError err)
         | Inr (professions, total') \<Rightarrow>
             (case int64_div (wrap64 (wrap64 (total' + req_limit r) - 1)) (req_limit r) of
                Inl p \<Rightarrow> Inl p
              | Inr lp \<Rightarrow>
                  Inr (JSON professions
                        \<lparr>meta_total = total', meta_page = req_page r,
                         meta_limit = req_limit r, meta_last_page = lp,
                         meta_sort_by = req_sortBy r,
                         meta_sort_direction = req_sortDirection r,
                         meta_valid_sort_fields = getKeys validSortFields\<rparr>)))"



section \<open>The page count of the Pagination component (pagination.tsx)\<close>

text \<open>
  \<open>Math.ceil(totalCount / perPage) || 1\<close> on non-negative counts. Dividing a positive
  count by zero gives Infinity, which is truthy; \<open>0 / 0\<close> is NaN, which is falsy.
\<close>

definition Pagination_pages :: "nat \<Rightarrow> nat \<Rightarrow> enat" where
  "Pagination_pages totalCount perPage =
     (if perPage = 0 then (if totalCount = 0 then 1 else \<infinity>)
      else (let c = nat \<lceil>real totalCount / real perPage\<rceil>
            in if c = 0 then 1 else enat c))"

section \<open>Query strings on the client (URLSearchParams)\<close>

type_synonym params = "(string \<times> string) list"

definition sp_get :: "params \<Rightarrow> string \<Rightarrow> string option" where
  "sp_get ps k = map_of ps k"

definition sp_has :: "params \<Rightarrow> string \<Rightarrow> bool" where
  "sp_has ps k = (k \<in> fst ` set ps)"

text \<open>
  \<open>set\<close> overwrites the first entry of the key and removes the others; a new key is
  appended. \<open>delete\<close> removes every entry of the key.
\<close>

fun sp_set :: "params \<Rightarrow> string \<Rightarrow> string \<Rightarrow> params" where
  "sp_set [] k v = [(k, v)]"
| "sp_set ((k', v') # ps) k v =
     (if k' = k then (k, v) # filter (\<lambda>p. fst p \<noteq> k) ps
      else (k', v') # sp_set ps k v)"

definition sp_delete :: "params \<Rightarrow> string \<Rightarrow> params" where
  "sp_delete ps k = filter (\<lambda>p. fst p \<noteq> k) ps"

text \<open>\<open>getAll\<close>: the values of every entry of the key, in the order of the URL.\<close>

definition sp_getAll :: "params \<Rightarrow> string \<Rightarrow> string list" where
  "sp_getAll ps k = map snd (filter (\<lambda>p. fst p = k) ps)"

text \<open>\<open>x || d\<close> on the result of \<open>get\<close>: null and the empty string give the default.\<close>

definition or_default :: "string option \<Rightarrow> string \<Rightarrow> string" where
  "or_default x d = (case x of None \<Rightarrow> d | Some v \<Rightarrow> if v = [] then d else v)"

text \<open>Lines 7 to 10 of the lead route: the four values handed to the backend URL.\<close>

definition lead_GET_params :: "params \<Rightarrow> string \<times> string \<times> string \<times> string" where
  "lead_GET_params searchParams =
     (or_default (sp_get searchParams ''page'') ''1'',
      or_default (sp_get searchParams ''limit'') ''10'',
      or_default (sp_get searchParams ''sortBy'') ''created_at'',
      or_default (sp_get searchParams ''sortDirection'') ''desc'')"

text \<open>Decimal rendering of numbers (\<open>toString\<close>, \<open>String\<close>) on integers.\<close>

fun decimal :: "nat \<Rightarrow> string" where
  "decimal n =
     (if n < 10 then [char_of (48 + n)]
      else decimal (n div 10) @ [char_of (48 + n mod 10)])"

definition decimal_int :: "int \<Rightarrow> string" where
  "decimal_int i = (if 0 \<le> i then decimal (nat i) else CHR ''-'' # decimal (nat \<bar>i\<bar>))"

section \<open>JSON values and the filter parameters (events page)\<close>

text \<open>
  The value \<open>JSON.parse\<close> returns. Numbers are the integers that a double holds exactly
  and that \<open>String\<close> prints in full decimal (magnitude below \<open>2\<^sup>5\<^sup>3\<close>); fractions and
  larger numbers are outside the model. \<open>JSON.parse\<close> and
  \<open>JSON.stringify\<close> themselves are parameters of the functions below: \<open>parse s = None\<close>
  stands for the SyntaxError thrown on malformed text.
\<close>

datatype json =
    JNull
  | JBool bool
  | JNum int
  | JStr string
  | JArr "json list"
  | JObj "(string \<times> json) list"

datatype js_error = SyntaxError | TypeError

text \<open>
  Reading a property: \<open>None\<close> is \<open>undefined\<close>. An object has the properties it was
  given; a string and an array have \<open>length\<close> and one property for each index, named by
  the decimal text of the index; numbers and booleans have none. Inherited properties
  (the methods of the prototypes) are not values of JSON and are not read by the code
  below, except \<open>trim\<close>, which is treated where it is called. Reading from null throws.
\<close>

fun own_prop :: "json \<Rightarrow> string \<Rightarrow> json option" where
  "own_prop (JObj ps) k = map_of ps k"
| "own_prop (JArr xs) k =
     (if k = ''length'' then Some (JNum (int (length xs)))
      else map_option (\<lambda>i. xs ! i) (find (\<lambda>i. decimal i = k) [0..<length xs]))"
| "own_prop (JStr s) k =
     (if k = ''length'' then Some (JNum (int (length s)))
      else map_option (\<lambda>i. JStr [s ! i]) (find (\<lambda>i. decimal i = k) [0..<length s]))"
| "own_prop v k = None"

definition get_prop :: "json \<Rightarrow> string \<Rightarrow> js_error + json option" where
  "get_prop v k = (if v = JNull then Inl TypeError else Inr (own_prop v k))"

fun truthy :: "json \<Rightarrow> bool" where
  "truthy JNull = False"
| "truthy (JBool b) = b"
| "truthy (JNum n) = (n \<noteq> 0)"
| "truthy (JStr s) = (s \<noteq> [])"
| "truthy (JArr xs) = True"
| "truthy (JObj ps) = True"

text \<open>
  \<open>trim\<close> removes white space and line terminators from both ends. A character here is
  one of the 256 code points of Latin-1; among these the ones \<open>trim\<close> removes are tab,
  line feed, vertical tab, form feed, carriage return, space and the no-break space.
\<close>

definition is_space :: "char \<Rightarrow> bool" where
  "is_space c = (of_char c \<in> {9, 10, 11, 12, 13, 32, 160 :: nat})"

definition trim :: "string \<Rightarrow> string" where
  "trim s = rev (dropWhile is_space (rev (dropWhile is_space s)))"

text \<open>
  The callback of \<open>parsed.some\<close>: \<open>f.value && f.value.trim() !== ''\<close>. A truthy value
  that is not a string has no \<open>trim\<close> method, and the call throws.
\<close>

definition has_value :: "json \<Rightarrow> js_error + bool" where
  "has_value f =
     (case get_prop f ''value'' of
        Inl e \<Rightarrow> Inl e
      | Inr None \<Rightarrow> Inr False
      | Inr (Some v) \<Rightarrow>
          if \<not> truthy v then Inr False
          else (case v of JStr s \<Rightarrow> Inr (trim s \<noteq> []) | _ \<Rightarrow> Inl TypeError))"

fun some_has_value :: "json list \<Rightarrow> js_error + bool" where
  "some_has_value [] = Inr False"
| "some_has_value (f # fs) =
     (case has_value f of
        Inl e \<Rightarrow> Inl e
      | Inr b \<Rightarrow> if b then Inr True else some_has_value fs)"

text \<open>
  \<open>Array.isArray(parsed) && parsed.length > 0 && parsed.some(...)\<close>
\<close>

definition valid_filter_array :: "json \<Rightarrow> js_error + bool" where
  "valid_filter_array parsed =
     (case parsed of
        JArr fs \<Rightarrow> if length fs > 0 then some_has_value fs else Inr False
      | _ \<Rightarrow> Inr False)"

subsection \<open>fetchEvents: the parameters of the API request\<close>

record sortConfig =
  column :: "string option"
  direction :: "string option"

definition base_params :: "nat \<Rightarrow> nat \<Rightarrow> sortConfig \<Rightarrow> params" where
  "base_params page limit sc =
     (let params = sp_set [] ''page'' (decimal page);
          params = sp_set params ''limit'' (decimal limit)
      in case column sc of
           None \<Rightarrow> params
         | Some c \<Rightarrow>
             if c = [] then params
             else (let params = sp_set params ''sortBy'' c
                   in case direction sc of
                        None \<Rightarrow> params
                      | Some d \<Rightarrow> if d = [] then params else sp_set params ''sortDirection'' d))"

definition hasFilters :: "params \<Rightarrow> bool" where
  "hasFilters searchParams =
     (sp_has searchParams ''from'' \<or> sp_has searchParams ''to'' \<or>
      sp_has searchParams ''advanced_filters'' \<or> sp_has searchParams ''filter_condition'' \<or>
      sp_has searchParams ''profession_id'' \<or> sp_has searchParams ''funnel_id'' \<or>
      sp_has searchParams ''time_from'' \<or> sp_has searchParams ''time_to'' \<or>
      sp_has searchParams ''filters'')"


definition filter_param_names :: "string list" where
  "filter_param_names =
     [''advanced_filters'', ''filter_condition'', ''profession_id'', ''funnel_id'',
      ''time_from'', ''time_to'', ''filters'', ''from'', ''to'']"

text \<open>
  The body of the loop over the entries of the URL (lines 112 to 154). Both exceptions
  of the \<open>try\<close> block, the SyntaxError of \<open>JSON.parse\<close> and the TypeError of the
  \<open>some\<close> callback, end in the \<open>catch\<close> that leaves the parameters as they are.
\<close>

definition copy_entry ::
  "(string \<Rightarrow> json option) \<Rightarrow> (json \<Rightarrow> string) \<Rightarrow> params \<Rightarrow> string \<Rightarrow> string \<Rightarrow> params \<Rightarrow> params"
where
  "copy_entry parse stringify searchParams key val params =
     (if key \<noteq> ''page'' \<and> key \<noteq> ''limit'' \<and> key \<noteq> ''sortBy'' \<and> key \<noteq> ''sortDirection'' then
        (if key \<in> set filter_param_names then
           (if key = ''advanced_filters'' \<or> key = ''filters'' then
              (case parse val of
                 None \<Rightarrow> params
               | Some parsed \<Rightarrow>
                   (case valid_filter_array parsed of
                      Inl e \<Rightarrow> params
                    | Inr ok \<Rightarrow>
                        if ok then
                          (let params = sp_set params key (stringify parsed)
                           in case sp_get searchParams ''filter_condition'' of
                                None \<Rightarrow> params
                              | Some filterCondition \<Rightarrow>
                                  if filterCondition \<noteq> [] \<and> key = ''advanced_filters''
                                  then sp_set params ''filter_condition'' filterCondition
                                  else params)
                        else params))
            else (if val \<noteq> [] \<and> trim val \<noteq> [] then sp_set params key val else params))
         else sp_set params key val)
      else params)"

fun copy_entries ::
  "(string \<Rightarrow> json option) \<Rightarrow> (json \<Rightarrow> string) \<Rightarrow> params \<Rightarrow> params \<Rightarrow> params \<Rightarrow> params"
where
  "copy_entries parse stringify searchParams [] params = params"
| "copy_entries parse stringify searchParams ((key, val) # rest) params =
     copy_entries parse stringify searchParams rest
       (copy_entry parse stringify searchParams key val params)"

text \<open>
  The parameters \<open>fetchEvents\<close> sends to \<open>/api/events\<close>. The flag is the session
  storage entry \<open>filter_clearing_in_progress\<close>.
\<close>

definition fetchEvents_params ::
  "(string \<Rightarrow> json option) \<Rightarrow> (json \<Rightarrow> string) \<Rightarrow> bool \<Rightarrow> nat \<Rightarrow> nat \<Rightarrow> sortConfig \<Rightarrow> params \<Rightarrow> params"
where
  "fetchEvents_params parse stringify isFilterClearingRequest page limit sc searchParams =
     (let params = base_params page limit sc
      in if isFilterClearingRequest then params
         else if \<not> hasFilters searchParams then params
         else copy_entries parse stringify searchParams searchParams params)"

subsection \<open>parseSearchParams: the filters shown by the page\<close>

text \<open>
  The \<open>try\<close> block reads the legacy parameter first. A SyntaxError at either
  \<open>JSON.parse\<close> leaves the function through the \<open>catch\<close> with \<open>parsedFilters\<close> as it
  is at that point, which is the empty array in both places.
\<close>

definition parseSearchParams :: "(string \<Rightarrow> json option) \<Rightarrow> params \<Rightarrow> json list" where
  "parseSearchParams parse params =
     (let legacy =
            (case sp_get params ''filters'' of
               None \<Rightarrow> Inr []
             | Some filterParam \<Rightarrow>
                 if filterParam = [] then Inr []
                 else (case parse filterParam of
                         None \<Rightarrow> Inl SyntaxError
                       | Some decoded \<Rightarrow>
                           (case decoded of JArr fs \<Rightarrow> Inr fs | _ \<Rightarrow> Inr [])))
      in case legacy of
           Inl e \<Rightarrow> []
         | Inr parsedFilters \<Rightarrow>
             if length parsedFilters = 0 then
               (case sp_get params ''advanced_filters'' of
                  None \<Rightarrow> parsedFilters
                | Some advancedFiltersParam \<Rightarrow>
                    if advancedFiltersParam = [] then parsedFilters
                    else (case parse advancedFiltersParam of
                            None \<Rightarrow> parsedFilters
                          | Some decoded \<Rightarrow>
                              (case decoded of JArr fs \<Rightarrow> fs | _ \<Rightarrow> parsedFilters)))
             else parsedFilters)"


section \<open>CSV export (events-table.tsx)\<close>

text \<open>
  An event is an object, given by its properties. \<open>String(v)\<close> on the values a record
  can hold; an element of an array that is null is rendered as the empty string.
\<close>

type_synonym event = "(string \<times> json) list"

fun join :: "string \<Rightarrow> string list \<Rightarrow> string" where
  "join sep [] = []"
| "join sep [x] = x"
| "join sep (x # y # ys) = x @ sep @ join sep (y # ys)"

fun String_js :: "json \<Rightarrow> string" where
  "String_js JNull = ''null''"
| "String_js (JBool b) = (if b then ''true'' else ''false'')"
| "String_js (JNum n) = decimal_int n"
| "String_js (JStr s) = s"
| "String_js (JArr xs) = join '','' (map (\<lambda>x. if x = JNull then [] else String_js x) xs)"
| "String_js (JObj ps) = ''[object Object]''"

fun split_on :: "char \<Rightarrow> string \<Rightarrow> string list" where
  "split_on c [] = [[]]"
| "split_on c (x # xs) =
     (if x = c then [] # split_on c xs
      else (case split_on c xs of
              [] \<Rightarrow> [[x]]
            | w # ws \<Rightarrow> (x # w) # ws))"

record column_def =
  accessorKey :: string
  header :: string

text \<open>
  The loop over the parts of a dotted key. The state is the pair of \<open>value\<close> and
  \<open>currentValue\<close> (\<open>None\<close> is \<open>undefined\<close>); the loop breaks on null and undefined.
\<close>

fun nested_loop :: "string list \<Rightarrow> string \<times> json option \<Rightarrow> string \<times> json option" where
  "nested_loop [] (val, currentValue) = (val, currentValue)"
| "nested_loop (k # ks) (val, currentValue) =
     (case currentValue of
        None \<Rightarrow> (''-'', currentValue)
      | Some v \<Rightarrow>
          if v = JNull then (''-'', currentValue)
          else nested_loop ks (val, own_prop v k))"

text \<open>
  The text of one cell, before quoting. The assignment after the loop replaces whatever
  the loop stored in \<open>value\<close>. \<open>formatDateToBRT\<close> renders an instant through the
  platform's locale functions and is a parameter.
\<close>

definition cell_value :: "(string \<Rightarrow> string) \<Rightarrow> event \<Rightarrow> string \<Rightarrow> string" where
  "cell_value formatDateToBRT ev key =
     (let val =
            (if CHR ''.'' \<in> set key then
               (let (val0, currentValue) = nested_loop (split_on CHR ''.'' key) ([], Some (JObj ev))
                in case currentValue of None \<Rightarrow> ''-'' | Some v \<Rightarrow> String_js v)
             else (case map_of ev key of None \<Rightarrow> ''-'' | Some v \<Rightarrow> String_js v))
      in if key = ''event_time'' \<and> val \<noteq> [] \<and> val \<noteq> ''-'' then formatDateToBRT val else val)"

definition dquote :: char where
  "dquote = CHR 0x22"

definition escape_quotes :: "string \<Rightarrow> string" where
  "escape_quotes val = concat (map (\<lambda>c. if c = dquote then [dquote, dquote] else [c]) val)"

definition csv_field :: "string \<Rightarrow> string" where
  "csv_field val = [dquote] @ escape_quotes val @ [dquote]"

definition csv_fields :: "(string \<Rightarrow> string) \<Rightarrow> column_def list \<Rightarrow> event \<Rightarrow> string list" where
  "csv_fields formatDateToBRT columnsData ev =
     map (\<lambda>column. csv_field (cell_value formatDateToBRT ev (accessorKey column))) columnsData"

definition csv_row :: "(string \<Rightarrow> string) \<Rightarrow> column_def list \<Rightarrow> event \<Rightarrow> string" where
  "csv_row formatDateToBRT columnsData ev = join '','' (csv_fields formatDateToBRT columnsData ev)"

definition newline :: string where
  "newline = [CHR 0x0A]"

definition csv_content :: "(string \<Rightarrow> string) \<Rightarrow> column_def list \<Rightarrow> event list \<Rightarrow> string" where
  "csv_content formatDateToBRT columnsData evs =
     join newline (join '','' (map header columnsData) # map (csv_row formatDateToBRT columnsData) evs)"

text \<open>
  The export of the selected rows and of the current page: an alert when there is
  nothing to export (\<open>None\<close>), the CSV text otherwise.
\<close>

definition handleExport ::
  "(string \<Rightarrow> string) \<Rightarrow> column_def list \<Rightarrow> (event \<Rightarrow> bool) \<Rightarrow> event list \<Rightarrow> string option"
where
  "handleExport formatDateToBRT columnsData selectedRows events =
     (let selectedEvents = filter selectedRows events
      in if length selectedEvents = 0 then None
         else Some (csv_content formatDateToBRT columnsData selectedEvents))"

definition handleExportCurrentPage ::
  "(string \<Rightarrow> string) \<Rightarrow> column_def list \<Rightarrow> event list \<Rightarrow> string option"
where
  "handleExportCurrentPage formatDateToBRT columnsData events =
     (if length events = 0 then None
      else Some (csv_content formatDateToBRT columnsData events))"

subsection \<open>Export of all events: fetching\<close>

text \<open>
  A request of the export is the direct one (\<open>export=true\<close>) or one page of a given
  size; the other parameters are the same in all of them. The network answers the n-th
  request issued with the events of the body (\<open>data.events || []\<close>) or makes the
  request throw (a rejected fetch, a status that is not ok, a body that is not JSON).
  The user answers the dialogs.
\<close>

datatype request = ExportRequest | PageRequest nat nat

datatype fetch_result = Throws | Events "event list"

type_synonym network = "nat \<Rightarrow> request \<Rightarrow> fetch_result"

datatype dialog =
    ConfirmExport nat
  | AlertNoEvents
  | ConfirmPartial nat nat
  | AlertError

record export_state =
  allEvents :: "event list"
  usedPagination :: bool
  requests :: "request list"
  dialogs :: "dialog list"

text \<open>
  The loop over the pages, from \<open>page\<close> to \<open>totalPages\<close>. \<open>Inl\<close> is the state at the
  moment a request throws, \<open>Inr\<close> the state after the last page.
\<close>

function fetch_pages ::
  "network \<Rightarrow> nat \<Rightarrow> nat \<Rightarrow> nat \<Rightarrow> export_state \<Rightarrow> export_state + export_state"
where
  "fetch_pages net pageSize totalPages page st =
     (if page \<le> totalPages then
        (let req = PageRequest page pageSize;
             st' = st\<lparr>requests := requests st @ [req]\<rparr>
         in case net (length (requests st)) req of
              Throws \<Rightarrow> Inl st'
            | Events pageEvents \<Rightarrow>
                fetch_pages net pageSize totalPages (page + 1)
                  (st'\<lparr>allEvents := allEvents st' @ pageEvents\<rparr>))
      else Inr st)"
  by pat_completeness auto
termination
  by (relation "measure (\<lambda>(net, pageSize, totalPages, page, st). totalPages + 1 - page)") auto

declare fetch_pages.simps [simp del]

text \<open>
  The inner \<open>try\<close>/\<open>catch\<close> of \<open>handleExportAll\<close> (lines 786 to 881). The \<open>catch\<close>
  receives the state as the throwing statement left it.
\<close>

definition paginated_fallback :: "network \<Rightarrow> nat \<Rightarrow> export_state \<Rightarrow> export_state + export_state" where
  "paginated_fallback net totalRegistros st =
     (let st = st\<lparr>usedPagination := True\<rparr>;
          pageSize = 1000;
          totalPages = nat \<lceil>real totalRegistros / real pageSize\<rceil>
      in fetch_pages net pageSize totalPages 1 st)"

definition accumulate :: "network \<Rightarrow> nat \<Rightarrow> export_state \<Rightarrow> export_state + export_state" where
  "accumulate net totalRegistros st =
     (let st' = st\<lparr>requests := requests st @ [ExportRequest]\<rparr>
      in case net (length (requests st)) ExportRequest of
           Throws \<Rightarrow> paginated_fallback net totalRegistros st'
         | Events evs \<Rightarrow>
             (let st1 = st'\<lparr>allEvents := evs\<rparr>
              in if length (allEvents st1) < totalRegistros then
                   (let st2 = st1\<lparr>usedPagination := True, allEvents := []\<rparr>;
                        pageSize = 1000;
                        totalPages = nat \<lceil>real totalRegistros / real pageSize\<rceil>
                    in case fetch_pages net pageSize totalPages 1 st2 of
                         Inl thrown \<Rightarrow> paginated_fallback net totalRegistros thrown
                       | Inr done \<Rightarrow> Inr done)
                 else Inr st1))"

subsection \<open>Export of all events: processing in batches\<close>

function process_batches ::
  "(string \<Rightarrow> string) \<Rightarrow> column_def list \<Rightarrow> event list \<Rightarrow> nat \<Rightarrow> nat \<Rightarrow> nat \<Rightarrow> string list \<Rightarrow> string list"
where
  "process_batches formatDateToBRT columnsData evs batchSize totalBatches i csvRows =
     (if i < totalBatches then
        (let start = i * batchSize;
             end' = min (start + batchSize) (length evs);
             batch = take (end' - start) (drop start evs);
             batchRows = map (csv_row formatDateToBRT columnsData) batch
         in process_batches formatDateToBRT columnsData evs batchSize totalBatches (i + 1)
              (csvRows @ batchRows))
      else csvRows)"
  by pat_completeness auto
termination
  by (relation "measure (\<lambda>(f, cs, evs, batchSize, totalBatches, i, csvRows). totalBatches - i)") auto

declare process_batches.simps [simp del]

definition export_csv :: "(string \<Rightarrow> string) \<Rightarrow> column_def list \<Rightarrow> event list \<Rightarrow> string" where
  "export_csv formatDateToBRT columnsData evs =
     (let headers = map header columnsData;
          csvRows = [join '','' headers];
          totalEvents = length evs;
          batchSize = (if totalEvents > 50000 then 5000
                       else if totalEvents > 10000 then 2000 else 1000);
          totalBatches = nat \<lceil>real totalEvents / real batchSize\<rceil>
      in join newline
           (process_batches formatDateToBRT columnsData evs batchSize totalBatches 0 csvRows))"

subsection \<open>Export of all events: the whole job\<close>

datatype outcome =
    Declined
  | NothingToExport
  | PartialDeclined
  | Failed
  | Exported string

definition ask :: "(dialog \<Rightarrow> bool) \<Rightarrow> dialog \<Rightarrow> export_state \<Rightarrow> bool \<times> export_state" where
  "ask user d st = (user d, st\<lparr>dialogs := dialogs st @ [d]\<rparr>)"

definition handleExportAll ::
  "(dialog \<Rightarrow> bool) \<Rightarrow> network \<Rightarrow> (string \<Rightarrow> string) \<Rightarrow> column_def list \<Rightarrow> nat
     \<Rightarrow> outcome \<times> export_state"
where
  "handleExportAll user net formatDateToBRT columnsData totalRegistros =
     (let st0 = \<lparr>allEvents = [], usedPagination = False, requests = [], dialogs = []\<rparr>;
          (go, st0) = ask user (ConfirmExport totalRegistros) st0
      in if \<not> go then (Declined, st0)
         else
           (case accumulate net totalRegistros st0 of
              Inl thrown \<Rightarrow> (Failed, snd (ask user AlertError thrown))
            | Inr st \<Rightarrow>
                if length (allEvents st) = 0 then
                  (NothingToExport, snd (ask user AlertNoEvents st))
                else if length (allEvents st) < totalRegistros then
                  (let (continue, st) =
                         ask user (ConfirmPartial (length (allEvents st)) totalRegistros) st
                   in if \<not> continue then (PartialDeclined, st)
                      else (Exported (export_csv formatDateToBRT columnsData (allEvents st)), st))
                else (Exported (export_csv formatDateToBRT columnsData (allEvents st)), st)))"


section \<open>Date ranges (date-filter.tsx, pesquisas-table.tsx)\<close>

text \<open>
  A \<open>Date\<close> is an instant, in milliseconds since the epoch. The machine's time zone is
  the offset of its local time from UTC, in milliseconds; it is a parameter of every
  function that reads or writes local time fields. The offset is one number: a zone
  without daylight saving time, as UTC and Brazil's are.
\<close>

type_synonym date = int

definition ms_per_day :: int where
  "ms_per_day = 86400000"

definition setHours :: "int \<Rightarrow> date \<Rightarrow> int \<Rightarrow> int \<Rightarrow> int \<Rightarrow> int \<Rightarrow> date" where
  "setHours tz d h m s ms =
     (let local = d + tz;
          day = local div ms_per_day
      in day * ms_per_day + h * 3600000 + m * 60000 + s * 1000 + ms - tz)"

text \<open>The calendar date of a day number (days since 1970-01-01) and back.\<close>

definition civil_from_days :: "int \<Rightarrow> int \<times> int \<times> int" where
  "civil_from_days days =
     (let z = days + 719468;
          era = z div 146097;
          doe = z mod 146097;
          yoe = (doe - doe div 1460 + doe div 36524 - doe div 146096) div 365;
          doy = doe - (365 * yoe + yoe div 4 - yoe div 100);
          mp = (5 * doy + 2) div 153;
          d = doy - (153 * mp + 2) div 5 + 1;
          m = (if mp < 10 then mp + 3 else mp - 9);
          y = yoe + era * 400 + (if m \<le> 2 then 1 else 0)
      in (y, m, d))"

definition days_from_civil :: "int \<Rightarrow> int \<Rightarrow> int \<Rightarrow> int" where
  "days_from_civil y m d =
     (let y' = (if m \<le> 2 then y - 1 else y);
          era = y' div 400;
          yoe = y' mod 400;
          doy = (153 * (if m > 2 then m - 3 else m + 9) + 2) div 5 + d - 1;
          doe = yoe * 365 + yoe div 4 - yoe div 100 + doy
      in era * 146097 + doe - 719468)"

fun pad :: "nat \<Rightarrow> string \<Rightarrow> string" where
  "pad n s = replicate (n - length s) CHR ''0'' @ s"

text \<open>\<open>Date.prototype.toISOString\<close>: the UTC fields, with the suffix Z.\<close>

definition toISOString :: "date \<Rightarrow> string" where
  "toISOString d =
     (let (y, m, dd) = civil_from_days (d div ms_per_day);
          t = d mod ms_per_day;
          year = (if 0 \<le> y \<and> y \<le> 9999 then pad 4 (decimal (nat y))
                  else (if y < 0 then ''-'' else ''+'') @ pad 6 (decimal (nat \<bar>y\<bar>)))
      in year @ ''-'' @ pad 2 (decimal (nat m)) @ ''-'' @ pad 2 (decimal (nat dd))
         @ ''T'' @ pad 2 (decimal (nat (t div 3600000)))
         @ '':'' @ pad 2 (decimal (nat (t mod 3600000 div 60000)))
         @ '':'' @ pad 2 (decimal (nat (t mod 60000 div 1000)))
         @ ''.'' @ pad 3 (decimal (nat (t mod 1000))) @ ''Z'')"

text \<open>\<open>s.replace('Z', r)\<close>: the first occurrence of the character is replaced.\<close>

fun replace_first :: "char \<Rightarrow> string \<Rightarrow> string \<Rightarrow> string" where
  "replace_first c r [] = []"
| "replace_first c r (x # xs) = (if x = c then r @ xs else x # replace_first c r xs)"

definition formatDateWithBrasiliaTimezone :: "date option \<Rightarrow> string" where
  "formatDateWithBrasiliaTimezone date =
     (case date of
        None \<Rightarrow> []
      | Some d \<Rightarrow> (let isoDate = toISOString d in replace_first CHR ''Z'' ''-03:00'' isoDate))"

text \<open>
  The value the date filter hands to its \<open>onChange\<close> callback. A time of day of the
  filter is the pair of its hours and minutes.
\<close>

record date_range =
  range_from :: "date option"
  range_to :: "date option"
  range_fromTime :: "(int \<times> int) option"
  range_toTime :: "(int \<times> int) option"

definition updateFilters ::
  "int \<Rightarrow> (date option \<times> date option) option \<Rightarrow> bool \<Rightarrow> int \<times> int \<Rightarrow> int \<times> int \<Rightarrow> date_range"
where
  "updateFilters tz selectedDates showCustomTime fromTime toTime =
     (case selectedDates of
        None \<Rightarrow> \<lparr>range_from = None, range_to = None, range_fromTime = None, range_toTime = None\<rparr>
      | Some (None, sel_to) \<Rightarrow>
          \<lparr>range_from = None, range_to = None, range_fromTime = None, range_toTime = None\<rparr>
      | Some (Some sel_from, sel_to) \<Rightarrow>
          (let from = sel_from;
               to = (case sel_to of None \<Rightarrow> sel_from | Some t \<Rightarrow> t);
               from = (if showCustomTime then setHours tz from (fst fromTime) (snd fromTime) 0 0
                       else setHours tz from 0 0 0 0);
               to = (if showCustomTime then setHours tz to (fst toTime) (snd toTime) 59 999
                     else setHours tz to 23 59 59 999)
           in \<lparr>range_from = Some from, range_to = Some to,
               range_fromTime = (if showCustomTime then Some fromTime else None),
               range_toTime = (if showCustomTime then Some toTime else None)\<rparr>))"

text \<open>
  \<open>updateFilters\<close> is declared by the component; the calendar calls \<open>handleDateSelect\<close>
  with the new selection (lines 133 to 191). The value is the argument of \<open>onChange\<close>.
\<close>

definition handleDateSelect ::
  "int \<Rightarrow> (date option \<times> date option) option \<Rightarrow> bool \<Rightarrow> int \<times> int \<Rightarrow> int \<times> int \<Rightarrow> date_range"
where
  "handleDateSelect tz newDate showCustomTime fromTime toTime =
     (case newDate of
        None \<Rightarrow> \<lparr>range_from = None, range_to = None, range_fromTime = None, range_toTime = None\<rparr>
      | Some (None, new_to) \<Rightarrow>
          \<lparr>range_from = None, range_to = None, range_fromTime = None, range_toTime = None\<rparr>
      | Some (Some new_from, Some new_to) \<Rightarrow>
          (let from = (if showCustomTime then setHours tz new_from (fst fromTime) (snd fromTime) 0 0
                       else setHours tz new_from 0 0 0 0);
               to = (if showCustomTime then setHours tz new_to (fst toTime) (snd toTime) 59 999
                     else setHours tz new_to 23 59 59 999)
           in \<lparr>range_from = Some from, range_to = Some to,
               range_fromTime = (if showCustomTime then Some fromTime else None),
               range_toTime = (if showCustomTime then Some toTime else None)\<rparr>)
      | Some (Some new_from, None) \<Rightarrow>
          \<lparr>range_from = Some (setHours tz new_from 0 0 0 0), range_to = None,
           range_fromTime = (if showCustomTime then Some fromTime else None),
           range_toTime = None\<rparr>)"

text \<open>
  \<open>applyCurrentFilter\<close> of the surveys table: the query string it navigates to, or
  nothing when no filter is being edited.
\<close>

definition applyCurrentFilter ::
  "int \<Rightarrow> string option \<Rightarrow> date_range option \<Rightarrow> params \<Rightarrow> params option"
where
  "applyCurrentFilter tz currentEditingFilter tempDateRange searchParamsObj =
     (case currentEditingFilter of
        None \<Rightarrow> None
      | Some ty \<Rightarrow>
          (let newParams = sp_set searchParamsObj ''page'' ''1'';
               newParams =
                 (case (case tempDateRange of None \<Rightarrow> None | Some r \<Rightarrow> range_from r) of
                    Some from \<Rightarrow>
                      sp_set newParams (ty @ ''_from'') (formatDateWithBrasiliaTimezone (Some from))
                  | None \<Rightarrow> sp_delete newParams (ty @ ''_from''));
               newParams =
                 (case (case tempDateRange of None \<Rightarrow> None | Some r \<Rightarrow> range_to r) of
                    Some to \<Rightarrow>
                      (let toDate = setHours tz to 23 59 59 999
                       in sp_set newParams (ty @ ''_to'') (formatDateWithBrasiliaTimezone (Some toDate)))
                  | None \<Rightarrow> sp_delete newParams (ty @ ''_to''));
               newParams = sp_delete newParams (ty @ ''_time_from'');
               newParams = sp_delete newParams (ty @ ''_time_to'')
           in Some newParams))"


section \<open>Sample inputs and input classes used by the statements below\<close>

text \<open>
  A parser that knows a few texts, each with the value \<open>JSON.parse\<close> gives it, and
  rejects every other text. It instantiates the parameter \<open>parse\<close> at concrete inputs.
\<close>

definition sample_parse :: "string \<Rightarrow> json option" where
  \<open>sample_parse s =
     (if s = ''[]'' then Some (JArr [])
      else if s = ''[{"value":""}]'' then Some (JArr [JObj [(''value'', JStr [])]])
      else if s = ''[{"value":"old"}]'' then Some (JArr [JObj [(''value'', JStr ''old'')]])
      else if s = ''[{"value":"new"}]'' then Some (JArr [JObj [(''value'', JStr ''new'')]])
      else None)\<close>

text \<open>
  A serialiser for the values of that parser: it writes each of them as the text the
  parser reads it from, and every other value as \<open>null\<close>. It instantiates the
  parameter \<open>stringify\<close>.
\<close>

definition sample_stringify :: "json \<Rightarrow> string" where
  \<open>sample_stringify j =
     (if j = JArr [] then ''[]''
      else if j = JArr [JObj [(''value'', JStr [])]] then ''[{"value":""}]''
      else if j = JArr [JObj [(''value'', JStr ''old'')]] then ''[{"value":"old"}]''
      else if j = JArr [JObj [(''value'', JStr ''new'')]] then ''[{"value":"new"}]''
      else ''null'')\<close>

text \<open>
  Three URLs: one with both filter parameters, each a valid array; one with a page, an
  \<open>advanced_filters\<close> array whose only entry has the empty value, and a valid legacy
  array; one with a parameter that is not a filter and an empty \<open>advanced_filters\<close>
  array.
\<close>

definition both_filters_url :: params where
  \<open>both_filters_url =
     [(''filters'', ''[{"value":"old"}]''), (''advanced_filters'', ''[{"value":"new"}]'')]\<close>



text \<open>
  Users and networks for the export job: a user who accepts every dialog; a network
  whose every response has no events; a network whose direct request fails and whose
  pages are cut from a store of the given size (each event names its page); a network
  whose direct request returns one event and each page two.
\<close>

definition always_yes :: "dialog \<Rightarrow> bool" where
  "always_yes d = True"

definition empty_network :: network where
  "empty_network n r = Events []"

definition page_event :: "nat \<Rightarrow> event" where
  "page_event p = [(''page'', JNum (int p))]"

definition sample_network :: "nat \<Rightarrow> network" where
  "sample_network stored n r =
     (case r of
        ExportRequest \<Rightarrow> Throws
      | PageRequest p l \<Rightarrow> Events (replicate (min l (stored - (p - 1) * l)) (page_event p)))"

definition short_network :: network where
  "short_network n r =
     (case r of
        ExportRequest \<Rightarrow> Events [page_event 0]
      | PageRequest p l \<Rightarrow> Events [page_event p, page_event p])"

text \<open>
  A network whose third request throws, whose direct request returns no events and
  whose pages hold one event each.
\<close>

definition flaky_network :: network where
  "flaky_network n r =
     (if n = 2 then Throws
      else (case r of
              ExportRequest \<Rightarrow> Events []
            | PageRequest p l \<Rightarrow> Events [page_event p]))"

text \<open>
  A network that holds 1000 events, all on page 1: the direct request returns no events,
  page 1 returns as many events as the page size asks for, and every other page returns
  none. The request with the given number throws.
\<close>

definition lossy_network :: "nat \<Rightarrow> network" where
  "lossy_network failing n r =
     (if n = failing then Throws
      else (case r of
              ExportRequest \<Rightarrow> Events []
            | PageRequest p l \<Rightarrow>
                if p = 1 then Events (replicate l (page_event 1)) else Events []))"

text \<open>
  A reader of one quoted CSV field: after the opening quote, a doubled quote is a quote
  of the content and a single one ends the field. It returns the content and the rest
  of the line.
\<close>

fun read_body :: "string \<Rightarrow> (string \<times> string) option" where
  "read_body [] = None"
| "read_body (c # cs) =
     (if c = dquote then
        (case cs of
           [] \<Rightarrow> Some ([], [])
         | d # ds \<Rightarrow>
             if d = dquote then map_option (\<lambda>(v, r). (dquote # v, r)) (read_body ds)
             else Some ([], cs))
      else map_option (\<lambda>(v, r). (c # v, r)) (read_body cs))"

definition read_field :: "string \<Rightarrow> (string \<times> string) option" where
  "read_field s = (case s of [] \<Rightarrow> None | c # cs \<Rightarrow> if c = dquote then read_body cs else None)"

text \<open>
  A reader of one line: quoted fields separated by commas, up to the end of the line.
  The fuel bounds the number of fields; the length of the line is always enough.
\<close>

fun read_fields :: "nat \<Rightarrow> string \<Rightarrow> string list option" where
  "read_fields 0 s = None"
| "read_fields (Suc n) s =
     (case read_field s of
        None \<Rightarrow> None
      | Some (v, rest) \<Rightarrow>
          (case rest of
             [] \<Rightarrow> Some [v]
           | c # rest' \<Rightarrow>
               if c = CHR '','' then map_option ((#) v) (read_fields n rest') else None))"

definition read_row :: "string \<Rightarrow> string list option" where
  "read_row s = read_fields (length s) s"





section \<open>Properties of the professions handler\<close>

lemma wrap64_id: "- (2 ^ 63) \<le> x \<Longrightarrow> x < 2 ^ 63 \<Longrightarrow> wrap64 x = x"
  unfolding wrap64_def by (simp add: mod_pos_pos_trivial)

lemma quot_nonneg: "0 \<le> a \<Longrightarrow> 0 < b \<Longrightarrow> quot a b = a div b"
  by (cases "a = 0") (simp_all add: quot_def)

lemma ceiling_as_div:
  assumes "0 < (l::int)"
  shows "(t + l - 1) div l = \<lceil>real_of_int t / real_of_int l\<rceil>"
proof -
  have "(t + l - 1) div l = - ((- t) div l)"
  proof (cases "t mod l = 0")
    case True
    then have "l dvd t" by (simp add: mod_eq_0_iff_dvd)
    then have "l * (t div l) = t" by simp
    then have "t + l - 1 = l * (t div l) + (l - 1)" by simp
    then have "(t + l - 1) div l = t div l"
      using assms by (intro int_div_pos_eq[where r = "l - 1"]) auto
    then show ?thesis using True assms by (simp add: zdiv_zminus1_eq_if)
  next
    case False
    have "0 \<le> t mod l" "t mod l < l" using assms by simp_all
    with False have r: "0 < t mod l" "t mod l < l" by simp_all
    have "t + l - 1 = l * (t div l + 1) + (t mod l - 1)"
      by (simp add: algebra_simps)
    then have "(t + l - 1) div l = t div l + 1"
      using assms r by (intro int_div_pos_eq[where r = "t mod l - 1"]) auto
    then show ?thesis using False assms by (simp add: zdiv_zminus1_eq_if)
  qed
  then show ?thesis by (simp add: ceiling_divide_eq_div)
qed

text \<open>
  Away from overflow the handler's quotient is the ceiling of total by limit; it is
  therefore at least 1 exactly when the total is positive.
\<close>

lemma handler_last_page_is_ceiling:
  assumes "0 \<le> t" "1 \<le> l" "t + l < 2 ^ 63"
  shows "int64_div (wrap64 (wrap64 (t + l) - 1)) l = Inr \<lceil>real_of_int t / real_of_int l\<rceil>"
proof -
  have a: "wrap64 (t + l) = t + l" using assms by (intro wrap64_id) auto
  have b: "wrap64 (t + l - 1) = t + l - 1" using assms by (intro wrap64_id) auto
  have c: "quot (t + l - 1) l = (t + l - 1) div l" using assms by (intro quot_nonneg) auto
  have d: "(t + l - 1) div l \<le> t + l - 1"
  proof (cases "l = 1")
    case True
    then show ?thesis by simp
  next
    case False
    then have "1 < l" "0 < t + l - 1" using assms by simp_all
    then have "(t + l - 1) div l < t + l - 1" by (intro int_div_less_self)
    then show ?thesis by simp
  qed
  have e: "0 \<le> (t + l - 1) div l" using assms by (simp add: pos_imp_zdiv_nonneg_iff)
  have f: "wrap64 ((t + l - 1) div l) = (t + l - 1) div l"
    using assms d e by (intro wrap64_id) auto
  show ?thesis using assms a b c f ceiling_as_div[of l t] by (simp add: int64_div_def)
qed

text \<open>The Pagination component never shows fewer than one page.\<close>

lemma Pagination_pages_is_max:
  assumes "1 \<le> perPage"
  shows "Pagination_pages totalCount perPage
         = enat (max 1 (nat \<lceil>real totalCount / real perPage\<rceil>))"
proof -
  have m: "max 1 c = (if c = 0 then 1 else c)" for c :: nat by auto
  show ?thesis using assms unfolding Pagination_pages_def Let_def m
    by (simp add: one_enat_def)
qed

lemma Pagination_pages_examples: "Pagination_pages 25 10 = 3 \<and> Pagination_pages 0 10 = 1"
  by (simp add: Pagination_pages_def Let_def one_enat_def numeral_eq_enat)

text \<open>
  \<open>Atoi\<close> at the ends of its range, and on text with a byte that is not a digit before
  and after the point where the digits leave the range.
\<close>

lemma Atoi_examples:
  "Atoi ''25'' = (25, None) \<and> Atoi ''+12'' = (12, None) \<and> Atoi ''-7'' = (- 7, None)
   \<and> Atoi ''abc'' = (0, Some ErrSyntax) \<and> Atoi ''-'' = (0, Some ErrSyntax)
   \<and> Atoi ''9x99'' = (0, Some ErrSyntax)
   \<and> Atoi ''9223372036854775807'' = (2 ^ 63 - 1, None)
   \<and> Atoi ''9223372036854775808'' = (2 ^ 63 - 1, Some ErrRange)
   \<and> Atoi ''-9223372036854775808'' = (- (2 ^ 63), None)
   \<and> Atoi ''-9223372036854775809'' = (- (2 ^ 63), Some ErrRange)
   \<and> Atoi ''99999999999999999999999x'' = (2 ^ 63 - 1, Some ErrRange)"
  by (simp add: Atoi_def is_digit_def digit_val_def Let_def)

lemmas handler_eval =
  GetProfessions_def parse_request_def Let_def Query_def Atoi_def is_digit_def digit_val_def
  int64_div_def wrap64_def quot_def validSortFields_def

text \<open>
  Claim C1. The last page of the pagination metadata should be
  \<open>max(1, ceil(total / limit))\<close>, and 1 for an empty listing. The professions handler
  answers an empty listing (total 0, limit 10) with \<open>last_page = 0\<close>, where the
  Pagination component computes one page from the same numbers.
\<close>

theorem C1_handler_last_page_of_empty_listing:
  "GetProfessions (\<lambda>p l ob. Inr ([], 0)) [(''page'', ''1''), (''limit'', ''10'')]
     = Inr (JSON []
         \<lparr>meta_total = 0, meta_page = 1, meta_limit = 10, meta_last_page = 0,
          meta_sort_by = ''created_at'', meta_sort_direction = ''desc'',
          meta_valid_sort_fields = getKeys validSortFields\<rparr>)
   \<and> Pagination_pages 0 10 = 1"
  by (simp add: handler_eval Pagination_pages_def one_enat_def)

text \<open>
  A sort field outside the allow-list gives the default ordering, whatever direction
  was asked for.
\<close>

lemma unknown_sort_field_gets_default:
  assumes "map_of validSortFields (Query q ''sortBy'' ''created_at'') = None"
  shows "req_orderBy (parse_request q) = ''created_at desc''"
  using assms by (simp add: parse_request_def Let_def)


text \<open>
  Claim C3. For a sort field outside the allow-list the response should report the
  field that was substituted. On the request
  \<open>?page=2&limit=10&sortBy=invalid_field&sortDirection=up\<close> the data layer is asked for
  \<open>created_at desc\<close> (the use case here returns the expression it was given as its only
  row), and the metadata reports \<open>sort_by = invalid_field\<close>.
\<close>

theorem C3_meta_sort_by_echoes_request:
  "GetProfessions (\<lambda>p l ob. Inr ([ob], 25))
       [(''page'', ''2''), (''limit'', ''10''), (''sortBy'', ''invalid_field''),
        (''sortDirection'', ''up'')]
     = Inr (JSON [''created_at desc'']
         \<lparr>meta_total = 25, meta_page = 2, meta_limit = 10, meta_last_page = 3,
          meta_sort_by = ''invalid_field'', meta_sort_direction = ''desc'',
          meta_valid_sort_fields = getKeys validSortFields\<rparr>)"
  by (simp add: handler_eval)

text \<open>
  A missing page or limit takes its default in the handler; the lead route of the
  client defaults a missing value and forwards any other text as it is.
\<close>

lemma missing_page_and_limit_default:
  assumes "map_of q ''page'' = None" "map_of q ''limit'' = None"
  shows "req_page (parse_request q) = 1 \<and> req_limit (parse_request q) = 10"
  using assms
  by (simp add: parse_request_def Let_def Query_def Atoi_def is_digit_def digit_val_def)

lemma lead_route_forwards_text:
  "lead_GET_params [] = (''1'', ''10'', ''created_at'', ''desc'') \<and>
   lead_GET_params [(''page'', ''x''), (''limit'', ''abc'')] = (''x'', ''abc'', ''created_at'', ''desc'')"
  by (simp add: lead_GET_params_def or_default_def sp_get_def)

text \<open>
  Claim C4. A missing page or limit takes its default, as the two lemmas above show. A
  limit that is not a number should take the default 10 as well and the handler should
  answer; on \<open>?limit=abc\<close> the limit is 0 and, the use case having returned its rows, the
  computation of the last page divides by zero.
\<close>

theorem C4_non_numeric_limit_divides_by_zero:
  "req_limit (parse_request [(''limit'', ''abc'')]) = 0 \<and>
   GetProfessions (\<lambda>p l ob. Inr ([ob], 25)) [(''limit'', ''abc'')] = Inl IntegerDivideByZero"
  by (simp add: handler_eval)

section \<open>Properties of the filter parameters\<close>

text \<open>
  \<open>parseSearchParams\<close> reads the legacy parameter first and looks at
  \<open>advanced_filters\<close> only when that left nothing. A SyntaxError at either
  \<open>JSON.parse\<close> ends in the empty list.
\<close>

lemma advanced_filters_used_when_legacy_gives_nothing:
  assumes "sp_get params ''filters'' = None \<or> sp_get params ''filters'' = Some [] \<or>
           (\<exists>fl. sp_get params ''filters'' = Some fl \<and> parse fl = Some (JArr []))"
    and "sp_get params ''advanced_filters'' = Some fa" "fa \<noteq> []"
    and "parse fa = Some (JArr advanced)"
  shows "parseSearchParams parse params = advanced"
  using assms by (auto simp: parseSearchParams_def)

lemma parseSearchParams_malformed_legacy:
  assumes "sp_get params ''filters'' = Some fl" "fl \<noteq> []" "parse fl = None"
  shows "parseSearchParams parse params = []"
  using assms by (simp add: parseSearchParams_def)

lemma parseSearchParams_malformed_advanced:
  assumes "sp_get params ''filters'' = None"
    and "sp_get params ''advanced_filters'' = Some fa" "parse fa = None"
  shows "parseSearchParams parse params = []"
  using assms by (simp add: parseSearchParams_def)







lemma copy_entry_filter_key:
  assumes "key = ''advanced_filters'' \<or> key = ''filters''"
  shows "copy_entry parse stringify sp key v params =
     (case parse v of
        None \<Rightarrow> params
      | Some parsed \<Rightarrow>
          (case valid_filter_array parsed of
             Inl e \<Rightarrow> params
           | Inr ok \<Rightarrow>
               if ok then
                 (let params = sp_set params key (stringify parsed)
                  in case sp_get sp ''filter_condition'' of
                       None \<Rightarrow> params
                     | Some filterCondition \<Rightarrow>
                         if filterCondition \<noteq> [] \<and> key = ''advanced_filters''
                         then sp_set params ''filter_condition'' filterCondition
                         else params)
               else params))"
proof -
  have 1: "key \<noteq> ''page''" "key \<noteq> ''limit''" "key \<noteq> ''sortBy''" "key \<noteq> ''sortDirection''"
    using assms by auto
  have 2: "key \<in> set filter_param_names" using assms by (auto simp: filter_param_names_def)
  show ?thesis unfolding copy_entry_def using 1 2 assms by simp
qed




lemma copy_entry_other:
  assumes "key \<noteq> ''advanced_filters''" "key \<noteq> ''filters''"
  shows "copy_entry parse stringify sp key v params =
         (if key \<in> {''page'', ''limit'', ''sortBy'', ''sortDirection''} then params
          else if key \<in> set filter_param_names then
            (if v \<noteq> [] \<and> trim v \<noteq> [] then sp_set params key v else params)
          else sp_set params key v)"
  unfolding copy_entry_def using assms by simp









text \<open>
  What \<open>set\<close> and \<open>delete\<close> leave under each key, and what one pass of the loop of
  \<open>fetchEvents\<close> does to the value of a key of the request: an entry of another key leaves
  it alone (only \<open>filter_condition\<close> is ever set from the entry of another key), and an
  entry of \<open>advanced_filters\<close> or \<open>filters\<close> whose array passes the test of line 126 sets
  the key to the serialised array.
\<close>

lemma map_of_filter_other: "k' \<noteq> k \<Longrightarrow> map_of (filter (\<lambda>p. fst p \<noteq> k) ps) k' = map_of ps k'"
  by (induction ps) auto

lemma sp_get_sp_set: "sp_get (sp_set ps k v) k' = (if k' = k then Some v else sp_get ps k')"
  unfolding sp_get_def
  by (induction ps) (auto simp: map_of_filter_other)

lemma copy_entry_keeps:
  assumes "key \<noteq> x" "x \<noteq> ''filter_condition''"
  shows "sp_get (copy_entry parse stringify sp key v params) x = sp_get params x"
proof (cases "key = ''advanced_filters'' \<or> key = ''filters''")
  case True
  show ?thesis using assms
    by (auto simp: copy_entry_filter_key[OF True] Let_def sp_get_sp_set
             split: option.splits sum.splits)
next
  case False
  then have "key \<noteq> ''advanced_filters''" "key \<noteq> ''filters''" by auto
  then show ?thesis using assms by (simp add: copy_entry_other sp_get_sp_set)
qed

lemma copy_entry_sets:
  assumes "key = ''advanced_filters'' \<or> key = ''filters''"
    and "parse v = Some parsed" "valid_filter_array parsed = Inr True"
  shows "sp_get (copy_entry parse stringify sp key v params) key = Some (stringify parsed)"
proof -
  have "key \<noteq> ''filter_condition''" using assms(1) by auto
  then show ?thesis using assms(2,3)
    by (simp add: copy_entry_filter_key[OF assms(1)] Let_def sp_get_sp_set split: option.splits)
qed

lemma copy_entries_keeps:
  assumes "sp_getAll es x = []" "x \<noteq> ''filter_condition''"
  shows "sp_get (copy_entries parse stringify sp es params) x = sp_get params x"
  using assms(1)
proof (induction es arbitrary: params)
  case Nil
  then show ?case by simp
next
  case (Cons e es)
  obtain k v where e: "e = (k, v)" by (cases e)
  have k: "k \<noteq> x" and rest: "sp_getAll es x = []"
    using Cons.prems e by (auto simp: sp_getAll_def split: if_splits)
  show ?case using Cons.IH[OF rest] copy_entry_keeps[OF k assms(2)] e by simp
qed

lemma copy_entries_sets:
  assumes x: "x = ''advanced_filters'' \<or> x = ''filters''"
    and "sp_getAll es x = [v]"
    and p: "parse v = Some parsed" "valid_filter_array parsed = Inr True"
  shows "sp_get (copy_entries parse stringify sp es params) x = Some (stringify parsed)"
  using assms(2)
proof (induction es arbitrary: params)
  case Nil
  then show ?case by (simp add: sp_getAll_def)
next
  case (Cons e es)
  obtain k v' where e: "e = (k, v')" by (cases e)
  have nc: "x \<noteq> ''filter_condition''" using x by auto
  show ?case
  proof (cases "k = x")
    case True
    then have v': "v' = v" and rest: "sp_getAll es x = []"
      using Cons.prems e by (auto simp: sp_getAll_def)
    have "sp_get (copy_entry parse stringify sp x v params) x = Some (stringify parsed)"
      using x p by (rule copy_entry_sets)
    then show ?thesis using copy_entries_keeps[OF rest nc] e True v' by simp
  next
    case False
    then have rest: "sp_getAll es x = [v]"
      using Cons.prems e by (auto simp: sp_getAll_def)
    show ?thesis using Cons.IH[OF rest] e by simp
  qed
qed

lemma sp_getAll_sp_get: "sp_getAll ps k = [v] \<Longrightarrow> sp_get ps k = Some v"
  unfolding sp_get_def sp_getAll_def
  by (induction ps) (auto split: if_splits)

lemma sp_getAll_sp_has: "sp_getAll ps k = [v] \<Longrightarrow> sp_has ps k"
  unfolding sp_has_def sp_getAll_def
  by (induction ps) (auto split: if_splits)


lemma sp_get_None_iff: "sp_get ps k = None \<longleftrightarrow> \<not> sp_has ps k"
  by (simp add: sp_get_def sp_has_def map_of_eq_None_iff)








text \<open>
  Claim C5. The claim gives precedence to \<open>advanced_filters\<close> when both parameters
  are present and valid. On a URL with both, each a valid array of one entry, the
  request of \<open>fetchEvents\<close> carries both parameters, so neither replaces the other there,
  and \<open>parseSearchParams\<close> returns the array of the legacy parameter, not the one of
  \<open>advanced_filters\<close>.
\<close>

theorem C5_advanced_filters_do_not_take_precedence:
  \<open>fetchEvents_params sample_parse sample_stringify False 1 10
      \<lparr>column = None, direction = None\<rparr> both_filters_url
     = [(''page'', ''1''), (''limit'', ''10''), (''filters'', ''[{"value":"old"}]''),
        (''advanced_filters'', ''[{"value":"new"}]'')]
   \<and> parseSearchParams sample_parse both_filters_url = [JObj [(''value'', JStr ''old'')]]
   \<and> parseSearchParams sample_parse both_filters_url \<noteq> [JObj [(''value'', JStr ''new'')]]\<close>
  by code_simp

text \<open>
  Claim C5, amended. Let the URL have one \<open>filters\<close> entry and one \<open>advanced_filters\<close>
  entry, let the text of \<open>filters\<close> be not empty (the empty text is not JSON), and let
  each text parse to an array that passes the test of line 126 (an array, not empty,
  with an entry whose value is a non-blank string). Then neither
  parameter takes precedence in the request: outside a filter-clearing request
  \<open>fetchEvents\<close> sends both, each with the serialisation of its own array. And
  \<open>parseSearchParams\<close>, whose result fills the filter state of the page, returns the
  array of the legacy \<open>filters\<close> parameter.
\<close>

theorem C5_both_filter_parameters_are_forwarded:
  assumes "sp_getAll searchParams ''filters'' = [fl]"
    and "sp_getAll searchParams ''advanced_filters'' = [fa]"
    and "fl \<noteq> []"
    and "parse fl = Some (JArr legacy)" "valid_filter_array (JArr legacy) = Inr True"
    and "parse fa = Some (JArr advanced)" "valid_filter_array (JArr advanced) = Inr True"
  shows "sp_get (fetchEvents_params parse stringify False page limit sc searchParams) ''filters''
           = Some (stringify (JArr legacy))
       \<and> sp_get (fetchEvents_params parse stringify False page limit sc searchParams)
           ''advanced_filters''
           = Some (stringify (JArr advanced))
       \<and> parseSearchParams parse searchParams = legacy"
proof -
  have h: "hasFilters searchParams"
    using sp_getAll_sp_has[OF assms(1)] by (simp add: hasFilters_def)
  have r: "fetchEvents_params parse stringify False page limit sc searchParams
           = copy_entries parse stringify searchParams searchParams (base_params page limit sc)"
    using h by (simp add: fetchEvents_params_def Let_def)
  have 1: "sp_get (copy_entries parse stringify searchParams searchParams
                     (base_params page limit sc)) ''filters'' = Some (stringify (JArr legacy))"
    using assms(1,4,5)
    by (intro copy_entries_sets[where v = fl and parse = parse]) simp_all
  have 2: "sp_get (copy_entries parse stringify searchParams searchParams
                     (base_params page limit sc)) ''advanced_filters''
             = Some (stringify (JArr advanced))"
    using assms(2,6,7)
    by (intro copy_entries_sets[where v = fa and parse = parse]) simp_all
  have ne: "legacy \<noteq> []" using assms(5) by (auto simp: valid_filter_array_def)
  have 3: "parseSearchParams parse searchParams = legacy"
    using sp_getAll_sp_get[OF assms(1)] assms(3,4) ne by (simp add: parseSearchParams_def)
  show ?thesis using 1 2 3 unfolding r by simp
qed

theorem C5_both_filter_parameters_are_forwarded_witness:
  \<open>sp_get (fetchEvents_params sample_parse sample_stringify False 1 10
             \<lparr>column = None, direction = None\<rparr> both_filters_url) ''filters''
      = Some ''[{"value":"old"}]''
   \<and> sp_get (fetchEvents_params sample_parse sample_stringify False 1 10
             \<lparr>column = None, direction = None\<rparr> both_filters_url) ''advanced_filters''
      = Some ''[{"value":"new"}]''
   \<and> parseSearchParams sample_parse both_filters_url = [JObj [(''value'', JStr ''old'')]]\<close>
proof -
  have v: "valid_filter_array (JArr [JObj [(''value'', JStr ''old'')]]) = Inr True"
          "valid_filter_array (JArr [JObj [(''value'', JStr ''new'')]]) = Inr True"
    by (simp_all add: valid_filter_array_def has_value_def get_prop_def trim_def is_space_def)
  show ?thesis
    using C5_both_filter_parameters_are_forwarded
            [where searchParams = both_filters_url and parse = sample_parse
               and stringify = sample_stringify
               and fl = \<open>''[{"value":"old"}]''\<close> and fa = \<open>''[{"value":"new"}]''\<close>
               and legacy = "[JObj [(''value'', JStr ''old'')]]"
               and advanced = "[JObj [(''value'', JStr ''new'')]]"
               and page = 1 and limit = 10 and sc = "\<lparr>column = None, direction = None\<rparr>"]
          v
    by (simp add: both_filters_url_def sp_getAll_def sample_parse_def sample_stringify_def)
qed





section \<open>Properties of the date ranges\<close>

text \<open>
  Claim C7. A range from and to the same day, without times, should become the interval
  from 00:00:00.000 to 23:59:59.999 of that day in the Brazilian time zone (UTC-3) on
  every machine. The filter sets the hours in the machine's local time, and the surveys
  table writes the UTC fields of the result with the suffix \<open>-03:00\<close>. For 2024-03-01
  picked on a machine whose local time is UTC-3 (the first instant is that machine's
  midnight, 03:00 UTC) the parameters are 03:00:00.000 of that day and 02:59:59.999 of
  the next; on a machine whose local time is UTC they are the interval of the claim.
\<close>

theorem C7_interval_depends_on_local_time_zone:
  "days_from_civil 2024 3 1 * ms_per_day - (- 10800000) = 1709262000000
   \<and> applyCurrentFilter (- 10800000) (Some ''captacao'')
        (Some (updateFilters (- 10800000) (Some (Some 1709262000000, Some 1709262000000))
                 False (0, 0) (23, 59))) []
     = Some [(''page'', ''1''),
             (''captacao_from'', ''2024-03-01T03:00:00.000-03:00''),
             (''captacao_to'', ''2024-03-02T02:59:59.999-03:00'')]
   \<and> days_from_civil 2024 3 1 * ms_per_day - 0 = 1709251200000
   \<and> applyCurrentFilter 0 (Some ''captacao'')
        (Some (updateFilters 0 (Some (Some 1709251200000, Some 1709251200000))
                 False (0, 0) (23, 59))) []
     = Some [(''page'', ''1''),
             (''captacao_from'', ''2024-03-01T00:00:00.000-03:00''),
             (''captacao_to'', ''2024-03-01T23:59:59.999-03:00'')]"
  by code_simp

text \<open>
  For a complete selection the handler the calendar calls hands over the range of
  \<open>updateFilters\<close>, so the statement above is about the value the page receives.
\<close>

lemma handleDateSelect_complete_range:
  "handleDateSelect tz (Some (Some d1, Some d2)) showCustomTime fromTime toTime
     = updateFilters tz (Some (Some d1, Some d2)) showCustomTime fromTime toTime"
  by (simp add: handleDateSelect_def updateFilters_def Let_def)

section \<open>Properties of the export of all events\<close>

text \<open>
  When every page answers, the loop issues one request per page, in page order, and
  appends the rows of each page in that order.
\<close>

lemma fetch_pages_all_ok:
  assumes "\<forall>p. page \<le> p \<and> p \<le> totalPages \<longrightarrow>
             net (length (requests st) + (p - page)) (PageRequest p pageSize) = Events (rows p)"
  shows "fetch_pages net pageSize totalPages page st =
           Inr (st\<lparr>allEvents := allEvents st @ concat (map rows [page..<Suc totalPages]),
                   requests := requests st @ map (\<lambda>p. PageRequest p pageSize) [page..<Suc totalPages]\<rparr>)"
  using assms
proof (induction net pageSize totalPages page st rule: fetch_pages.induct)
  case (1 net pageSize totalPages page st)
  show ?case
  proof (cases "page \<le> totalPages")
    case False
    then show ?thesis by (simp add: fetch_pages.simps[of net pageSize totalPages page st])
  next
    case True
    let ?st' = "st\<lparr>requests := requests st @ [PageRequest page pageSize]\<rparr>"
    let ?st'' = "?st'\<lparr>allEvents := allEvents ?st' @ rows page\<rparr>"
    have here: "net (length (requests st)) (PageRequest page pageSize) = Events (rows page)"
      using "1.prems" True by (metis add_0_right diff_self_eq_0 le_refl)
    have later: "\<forall>p. page + 1 \<le> p \<and> p \<le> totalPages \<longrightarrow>
             net (length (requests ?st'') + (p - (page + 1))) (PageRequest p pageSize) = Events (rows p)"
    proof (intro allI impI)
      fix p assume p: "page + 1 \<le> p \<and> p \<le> totalPages"
      then have eq: "length (requests ?st'') + (p - (page + 1)) = length (requests st) + (p - page)"
        by auto
      show "net (length (requests ?st'') + (p - (page + 1))) (PageRequest p pageSize) = Events (rows p)"
        unfolding eq using "1.prems" p by (metis Suc_eq_plus1 Suc_leD)
    qed
    have ih: "fetch_pages net pageSize totalPages (page + 1) ?st'' =
           Inr (?st''\<lparr>allEvents := allEvents ?st'' @ concat (map rows [page + 1..<Suc totalPages]),
                   requests := requests ?st'' @ map (\<lambda>p. PageRequest p pageSize) [page + 1..<Suc totalPages]\<rparr>)"
      using "1.IH"[OF True refl refl here later] .
    have upt: "[page..<Suc totalPages] = page # [page + 1..<Suc totalPages]"
      using True by (simp add: upt_conv_Cons)
    show ?thesis
      unfolding fetch_pages.simps[of net pageSize totalPages page st] upt
      using True here ih by (simp add: Let_def del: upt_Suc)
  qed
qed


lemma accumulate_paginated:
  assumes direct: "net 0 ExportRequest = Throws \<or>
                   (\<exists>evs. net 0 ExportRequest = Events evs \<and> length evs < total')"
    and pages: "\<forall>p. 1 \<le> p \<and> p \<le> nat \<lceil>real total' / 1000\<rceil> \<longrightarrow>
                  net p (PageRequest p 1000) = Events (rows p)"
  shows "accumulate net total'
           \<lparr>allEvents = [], usedPagination = False, requests = [], dialogs = ds\<rparr>
         = Inr \<lparr>allEvents = concat (map rows [1..<Suc (nat \<lceil>real total' / 1000\<rceil>)]),
                usedPagination = True,
                requests = ExportRequest #
                  map (\<lambda>p. PageRequest p 1000) [1..<Suc (nat \<lceil>real total' / 1000\<rceil>)],
                dialogs = ds\<rparr>"
proof -
  let ?tp = "nat \<lceil>real total' / 1000\<rceil>"
  let ?st = "\<lparr>allEvents = [], usedPagination = True, requests = [ExportRequest], dialogs = ds\<rparr>"
  have "\<forall>p. 1 \<le> p \<and> p \<le> ?tp \<longrightarrow>
          net (length (requests ?st) + (p - 1)) (PageRequest p 1000) = Events (rows p)"
    using pages by simp
  then have loop: "fetch_pages net 1000 ?tp 1 ?st =
      Inr (?st\<lparr>allEvents := allEvents ?st @ concat (map rows [1..<Suc ?tp]),
               requests := requests ?st @ map (\<lambda>p. PageRequest p 1000) [1..<Suc ?tp]\<rparr>)"
    by (rule fetch_pages_all_ok)
  from direct show ?thesis
  proof
    assume "net 0 ExportRequest = Throws"
    then show ?thesis using loop
      by (simp add: accumulate_def paginated_fallback_def Let_def del: upt_Suc)
  next
    assume "\<exists>evs. net 0 ExportRequest = Events evs \<and> length evs < total'"
    then obtain evs where "net 0 ExportRequest = Events evs" "length evs < total'" by blast
    then show ?thesis using loop
      by (simp add: accumulate_def Let_def del: upt_Suc)
  qed
qed

text \<open>
  Claim C8. With an expected total of 2500 the Paginated strategy, entered because the
  direct request threw or returned too few rows, issues exactly the three page requests
  1, 2, 3 of size 1000 after the direct one; when the pages hold 1000, 1000 and 500 rows
  the accumulated sequence is the three pages in order and has 2500 rows.
\<close>

theorem C8_paginated_export_of_2500:
  assumes "net 0 ExportRequest = Throws \<or>
           (\<exists>evs. net 0 ExportRequest = Events evs \<and> length evs < 2500)"
    and "net 1 (PageRequest 1 1000) = Events p1"
    and "net 2 (PageRequest 2 1000) = Events p2"
    and "net 3 (PageRequest 3 1000) = Events p3"
    and "length p1 = 1000" "length p2 = 1000" "length p3 = 500"
  shows "accumulate net 2500
           \<lparr>allEvents = [], usedPagination = False, requests = [], dialogs = ds\<rparr>
         = Inr \<lparr>allEvents = p1 @ p2 @ p3, usedPagination = True,
                requests = [ExportRequest, PageRequest 1 1000, PageRequest 2 1000,
                            PageRequest 3 1000],
                dialogs = ds\<rparr>
       \<and> length (p1 @ p2 @ p3) = 2500"
proof -
  let ?rows = "\<lambda>p::nat. if p = 1 then p1 else if p = 2 then p2 else p3"
  have tp: "nat \<lceil>real 2500 / 1000\<rceil> = 3" by simp
  have pages: "\<forall>p. 1 \<le> p \<and> p \<le> nat \<lceil>real 2500 / 1000\<rceil> \<longrightarrow>
                  net p (PageRequest p 1000) = Events (?rows p)"
  proof (intro allI impI)
    fix p :: nat assume "1 \<le> p \<and> p \<le> nat \<lceil>real 2500 / 1000\<rceil>"
    then have "p = 1 \<or> p = 2 \<or> p = 3" unfolding tp by auto
    then show "net p (PageRequest p 1000) = Events (?rows p)"
      using assms(2-4) by auto
  qed
  have l: "[1..<Suc 3] = [1, 2, 3]" by (simp add: upt_rec)
  show ?thesis
    using accumulate_paginated[OF assms(1) pages, of ds] assms(5-7)
    unfolding tp l by simp
qed

theorem C8_paginated_export_of_2500_witness:
  "accumulate (sample_network 2500) 2500
           \<lparr>allEvents = [], usedPagination = False, requests = [], dialogs = []\<rparr>
         = Inr \<lparr>allEvents = replicate 1000 (page_event 1) @ replicate 1000 (page_event 2)
                               @ replicate 500 (page_event 3),
                usedPagination = True,
                requests = [ExportRequest, PageRequest 1 1000, PageRequest 2 1000,
                            PageRequest 3 1000],
                dialogs = []\<rparr>
   \<and> length (replicate 1000 (page_event 1) @ replicate 1000 (page_event 2)
                               @ replicate 500 (page_event 3)) = 2500"
  by (rule C8_paginated_export_of_2500) (simp_all add: sample_network_def)

text \<open>
  One step of the loop, and what the inner \<open>catch\<close> does when a page request throws
  after the switch to pages: it fetches every page again and appends to the rows
  already accumulated.
\<close>

lemma fetch_pages_step:
  "page \<le> totalPages \<Longrightarrow> net (length (requests st)) (PageRequest page pageSize) = Events evs \<Longrightarrow>
   fetch_pages net pageSize totalPages page st
     = fetch_pages net pageSize totalPages (page + 1)
         (st\<lparr>requests := requests st @ [PageRequest page pageSize],
             allEvents := allEvents st @ evs\<rparr>)"
  by (subst fetch_pages.simps) (simp add: Let_def)

lemma fetch_pages_throw:
  "page \<le> totalPages \<Longrightarrow> net (length (requests st)) (PageRequest page pageSize) = Throws \<Longrightarrow>
   fetch_pages net pageSize totalPages page st
     = Inl (st\<lparr>requests := requests st @ [PageRequest page pageSize]\<rparr>)"
  by (subst fetch_pages.simps) (simp add: Let_def)

lemma fetch_pages_past_last:
  "totalPages < page \<Longrightarrow> fetch_pages net pageSize totalPages page st = Inr st"
  by (subst fetch_pages.simps) simp

lemma retry_after_page_failure_keeps_rows:
  "accumulate flaky_network 1500
     \<lparr>allEvents = [], usedPagination = False, requests = [], dialogs = []\<rparr>
   = Inr \<lparr>allEvents = [page_event 1, page_event 1, page_event 2], usedPagination = True,
          requests = [ExportRequest, PageRequest 1 1000, PageRequest 2 1000,
                      PageRequest 1 1000, PageRequest 2 1000],
          dialogs = []\<rparr>"
proof -
  have tp: "nat \<lceil>real 1500 / 1000\<rceil> = 2" by simp
  show ?thesis
    by (simp add: accumulate_def paginated_fallback_def Let_def tp flaky_network_def
          fetch_pages_step fetch_pages_throw fetch_pages_past_last page_event_def)
qed


text \<open>
  When the assembled set is empty the job shows the alert that there is nothing to
  export and ends; the confirmation of a partial export is not asked. Here three rows
  are expected and the network returns none.
\<close>

lemma empty_result_gets_alert:
  "handleExportAll always_yes empty_network id [] 3
     = (NothingToExport,
        \<lparr>allEvents = [], usedPagination = True,
         requests = [ExportRequest, PageRequest 1 1000],
         dialogs = [ConfirmExport 3, AlertNoEvents]\<rparr>)"
proof -
  have tp: "nat \<lceil>real 3 / 1000\<rceil> = 1" by simp
  have acc: "accumulate empty_network 3
          \<lparr>allEvents = [], usedPagination = False, requests = [], dialogs = [ConfirmExport 3]\<rparr>
        = Inr \<lparr>allEvents = [], usedPagination = True,
               requests = [ExportRequest, PageRequest 1 1000], dialogs = [ConfirmExport 3]\<rparr>"
    using accumulate_paginated[of empty_network 3 "\<lambda>p. []" "[ConfirmExport 3]"]
    unfolding tp by (simp add: empty_network_def)
  show ?thesis
    by (simp add: handleExportAll_def ask_def always_yes_def acc)
qed

text \<open>
  Let the user accept the first dialog. If the direct request throws or returns fewer
  rows than expected and every page answers, the accumulated set is the rows of the
  pages in page order and nothing else: the rows of the direct response are gone.
  Whenever accumulation ends, a set that is not empty and shorter than the total leads
  to the confirmation dialog, and the export happens only on a yes; an empty set leads
  to the alert and no export.
\<close>

lemma fallback_and_partial_confirmation:
  assumes go: "user (ConfirmExport total')"
  shows
    "((net 0 ExportRequest = Throws \<or>
        (\<exists>evs. net 0 ExportRequest = Events evs \<and> length evs < total')) \<and>
      (\<forall>p. 1 \<le> p \<and> p \<le> nat \<lceil>real total' / 1000\<rceil> \<longrightarrow>
             net p (PageRequest p 1000) = Events (rows p))
      \<longrightarrow> accumulate net total'
            \<lparr>allEvents = [], usedPagination = False, requests = [],
             dialogs = [ConfirmExport total']\<rparr>
          = Inr \<lparr>allEvents = concat (map rows [1..<Suc (nat \<lceil>real total' / 1000\<rceil>)]),
                 usedPagination = True,
                 requests = ExportRequest #
                   map (\<lambda>p. PageRequest p 1000) [1..<Suc (nat \<lceil>real total' / 1000\<rceil>)],
                 dialogs = [ConfirmExport total']\<rparr>)
     \<and> (\<forall>acc. accumulate net total'
                 \<lparr>allEvents = [], usedPagination = False, requests = [],
                  dialogs = [ConfirmExport total']\<rparr> = Inr acc
            \<longrightarrow>
              (allEvents acc \<noteq> [] \<and> length (allEvents acc) < total' \<longrightarrow>
                 handleExportAll user net formatDateToBRT columnsData total'
                 = (if user (ConfirmPartial (length (allEvents acc)) total')
                    then Exported (export_csv formatDateToBRT columnsData (allEvents acc))
                    else PartialDeclined,
                    acc\<lparr>dialogs := dialogs acc @
                           [ConfirmPartial (length (allEvents acc)) total']\<rparr>))
            \<and> (allEvents acc = [] \<longrightarrow>
                 handleExportAll user net formatDateToBRT columnsData total'
                 = (NothingToExport, acc\<lparr>dialogs := dialogs acc @ [AlertNoEvents]\<rparr>)))"
proof -
  have a: "accumulate net total'
            \<lparr>allEvents = [], usedPagination = False, requests = [],
             dialogs = [ConfirmExport total']\<rparr>
          = Inr \<lparr>allEvents = concat (map rows [1..<Suc (nat \<lceil>real total' / 1000\<rceil>)]),
                 usedPagination = True,
                 requests = ExportRequest #
                   map (\<lambda>p. PageRequest p 1000) [1..<Suc (nat \<lceil>real total' / 1000\<rceil>)],
                 dialogs = [ConfirmExport total']\<rparr>"
    if "net 0 ExportRequest = Throws \<or>
        (\<exists>evs. net 0 ExportRequest = Events evs \<and> length evs < total')"
      and "\<forall>p. 1 \<le> p \<and> p \<le> nat \<lceil>real total' / 1000\<rceil> \<longrightarrow>
             net p (PageRequest p 1000) = Events (rows p)"
    using that by (rule accumulate_paginated)
  have b: "handleExportAll user net formatDateToBRT columnsData total'
                 = (if user (ConfirmPartial (length (allEvents acc)) total')
                    then Exported (export_csv formatDateToBRT columnsData (allEvents acc))
                    else PartialDeclined,
                    acc\<lparr>dialogs := dialogs acc @
                           [ConfirmPartial (length (allEvents acc)) total']\<rparr>)"
    if "accumulate net total'
                 \<lparr>allEvents = [], usedPagination = False, requests = [],
                  dialogs = [ConfirmExport total']\<rparr> = Inr acc"
      and "allEvents acc \<noteq> []" "length (allEvents acc) < total'" for acc
    using that go by (simp add: handleExportAll_def ask_def Let_def)
  have c: "handleExportAll user net formatDateToBRT columnsData total'
                 = (NothingToExport, acc\<lparr>dialogs := dialogs acc @ [AlertNoEvents]\<rparr>)"
    if "accumulate net total'
                 \<lparr>allEvents = [], usedPagination = False, requests = [],
                  dialogs = [ConfirmExport total']\<rparr> = Inr acc"
      and "allEvents acc = []" for acc
    using that go by (simp add: handleExportAll_def ask_def Let_def)
  show ?thesis using a b c by blast
qed

text \<open>
  Claim C9. After accumulation by either path a set shorter than the expected total
  should lead to the confirmation of a partial export, on a set that was started empty:
  the job should never truncate silently. Here 1001 events are expected and the user
  accepts every dialog. The direct request returns too few events, so the job switches
  to pages and clears the set (line 804). Page 1 returns 1000 events and the request for
  page 2 throws. The \<open>catch\<close> of line 841 fetches the pages again from page 1 and does
  not clear the set, so the events of page 1 are in it twice; page 2 now answers with no
  events. The set has 2000 rows, which is not fewer than 1001: no confirmation is asked
  and the export is written with page 1 twice and without the event that is missing.
  When no request throws, the same network leaves 1000 rows and the confirmation is
  asked.
\<close>

theorem C9_retry_after_page_failure_hides_missing_rows:
  "handleExportAll always_yes (lossy_network 2) formatDateToBRT columnsData 1001
     = (Exported (export_csv formatDateToBRT columnsData
                    (replicate 1000 (page_event 1) @ replicate 1000 (page_event 1))),
        \<lparr>allEvents = replicate 1000 (page_event 1) @ replicate 1000 (page_event 1),
         usedPagination = True,
         requests = [ExportRequest, PageRequest 1 1000, PageRequest 2 1000,
                     PageRequest 1 1000, PageRequest 2 1000],
         dialogs = [ConfirmExport 1001]\<rparr>)
   \<and> handleExportAll always_yes (lossy_network 5) formatDateToBRT columnsData 1001
     = (Exported (export_csv formatDateToBRT columnsData (replicate 1000 (page_event 1))),
        \<lparr>allEvents = replicate 1000 (page_event 1),
         usedPagination = True,
         requests = [ExportRequest, PageRequest 1 1000, PageRequest 2 1000],
         dialogs = [ConfirmExport 1001, ConfirmPartial 1000 1001]\<rparr>)"
proof -
  have tp: "nat \<lceil>real 1001 / 1000\<rceil> = 2" by simp
  have a: "accumulate (lossy_network 2) 1001
             \<lparr>allEvents = [], usedPagination = False, requests = [],
              dialogs = [ConfirmExport 1001]\<rparr>
           = Inr \<lparr>allEvents = replicate 1000 (page_event 1) @ replicate 1000 (page_event 1),
                  usedPagination = True,
                  requests = [ExportRequest, PageRequest 1 1000, PageRequest 2 1000,
                              PageRequest 1 1000, PageRequest 2 1000],
                  dialogs = [ConfirmExport 1001]\<rparr>"
    by (simp add: accumulate_def paginated_fallback_def Let_def tp lossy_network_def
          fetch_pages_step fetch_pages_throw fetch_pages_past_last)
  have b: "accumulate (lossy_network 5) 1001
             \<lparr>allEvents = [], usedPagination = False, requests = [],
              dialogs = [ConfirmExport 1001]\<rparr>
           = Inr \<lparr>allEvents = replicate 1000 (page_event 1),
                  usedPagination = True,
                  requests = [ExportRequest, PageRequest 1 1000, PageRequest 2 1000],
                  dialogs = [ConfirmExport 1001]\<rparr>"
    by (simp add: accumulate_def paginated_fallback_def Let_def tp lossy_network_def
          fetch_pages_step fetch_pages_throw fetch_pages_past_last)
  show ?thesis
    by (simp add: handleExportAll_def ask_def always_yes_def a b)
qed


section \<open>Properties of the CSV text\<close>

text \<open>
  Claim C10. Fields are quoted with their quotes doubled and a missing value is written
  as \<open>-\<close>, as the lemmas below show; a null value should be written as \<open>-\<close> too. For
  the event \<open>{event_id: "e1", user: null}\<close> the loop over \<open>user.phone\<close> stops at the
  null and stores \<open>-\<close>, and the assignment after the loop overwrites it: the fields of
  the row are "e1", "null", "null" and "-".
\<close>

theorem C10_null_is_written_as_text:
  "nested_loop [''user'', ''phone''] ([], Some (JObj [(''event_id'', JStr ''e1''), (''user'', JNull)]))
     = (''-'', Some JNull)
   \<and> csv_fields fmt
       [\<lparr>accessorKey = ''event_id'', header = ''ID''\<rparr>,
        \<lparr>accessorKey = ''user.phone'', header = ''Telefone''\<rparr>,
        \<lparr>accessorKey = ''user'', header = ''Usuario''\<rparr>,
        \<lparr>accessorKey = ''event_name'', header = ''Evento''\<rparr>]
       [(''event_id'', JStr ''e1''), (''user'', JNull)]
     = [[dquote] @ ''e1'' @ [dquote], [dquote] @ ''null'' @ [dquote],
        [dquote] @ ''null'' @ [dquote], [dquote] @ ''-'' @ [dquote]]"
  by (simp add: csv_fields_def csv_field_def escape_quotes_def cell_value_def dquote_def)

lemma csv_fields_length: "length (csv_fields fmt columnsData ev) = length columnsData"
  by (simp add: csv_fields_def)

lemma read_body_escape:
  assumes "rest = [] \<or> hd rest \<noteq> dquote"
  shows "read_body (escape_quotes v @ dquote # rest) = Some (v, rest)"
proof (induction v)
  case Nil
  then show ?case using assms by (cases rest) (auto simp: escape_quotes_def)
next
  case (Cons c v)
  then show ?case by (auto simp: escape_quotes_def)
qed

lemma read_field_csv_field:
  assumes "rest = [] \<or> hd rest \<noteq> dquote"
  shows "read_field (csv_field v @ rest) = Some (v, rest)"
  using read_body_escape[OF assms] by (simp add: read_field_def csv_field_def)

text \<open>
  Reading a row back gives the text of its cells, one per visible column: the quoting
  keeps commas, quotes and line breaks of the content inside their field.
\<close>

lemma read_fields_join:
  "vs \<noteq> [] \<Longrightarrow> length vs \<le> n \<Longrightarrow> read_fields n (join '','' (map csv_field vs)) = Some vs"
proof (induction vs arbitrary: n)
  case Nil
  then show ?case by simp
next
  case (Cons v vs)
  then obtain m where n: "n = Suc m" by (cases n) auto
  show ?case
  proof (cases vs)
    case Nil
    have "read_field (csv_field v @ []) = Some (v, [])"
      by (rule read_field_csv_field) simp
    then show ?thesis using Nil n by simp
  next
    case (Cons w ws)
    have "read_field (csv_field v @ (CHR '','' # join '','' (map csv_field vs)))
          = Some (v, CHR '','' # join '','' (map csv_field vs))"
      by (rule read_field_csv_field) (simp add: dquote_def)
    moreover have "read_fields m (join '','' (map csv_field vs)) = Some vs"
      using Cons.IH[of m] Cons.prems n Cons by simp
    ultimately show ?thesis using Cons n by simp
  qed
qed

lemma join_fields_length: "length vs \<le> length (join '','' (map csv_field vs))"
proof (induction vs rule: induct_list012)
  case 1
  then show ?case by simp
next
  case (2 x)
  then show ?case by (simp add: csv_field_def)
next
  case (3 x y zs)
  then show ?case by (simp add: csv_field_def)
qed

lemma read_row_csv_row:
  assumes "columnsData \<noteq> []"
  shows "read_row (csv_row fmt columnsData ev)
         = Some (map (\<lambda>column. cell_value fmt ev (accessorKey column)) columnsData)"
proof -
  let ?vs = "map (\<lambda>column. cell_value fmt ev (accessorKey column)) columnsData"
  have row: "csv_row fmt columnsData ev = join '','' (map csv_field ?vs)"
    by (simp add: csv_row_def csv_fields_def comp_def)
  have "?vs \<noteq> []" using assms by simp
  then show ?thesis
    unfolding read_row_def row
    by (intro read_fields_join join_fields_length)
qed

lemma missing_value_is_dash:
  assumes "CHR ''.'' \<notin> set key" "map_of ev key = None"
  shows "cell_value fmt ev key = ''-''"
  using assms by (simp add: cell_value_def)

text \<open>
  The batches of the export of all events cover every event once, in order: the text
  is the one the other two exports build.
\<close>

lemma batch_is_take:
  "take (min (s + b) (length evs) - s) (drop s evs) = take b (drop s evs)"
  by (simp add: min_def)

lemma process_batches_rows:
  assumes "0 < batchSize"
  shows "process_batches fmt cs evs batchSize totalBatches i csvRows =
         csvRows @ map (csv_row fmt cs) (take ((totalBatches - i) * batchSize) (drop (i * batchSize) evs))"
proof (induction fmt cs evs batchSize totalBatches i csvRows rule: process_batches.induct)
  case (1 fmt cs evs batchSize totalBatches i csvRows)
  show ?case
  proof (cases "i < totalBatches")
    case False
    then show ?thesis by (simp add: process_batches.simps[of fmt cs evs batchSize totalBatches i])
  next
    case True
    have split: "take ((totalBatches - i) * batchSize) (drop (i * batchSize) evs)
        = take batchSize (drop (i * batchSize) evs)
          @ take ((totalBatches - (i + 1)) * batchSize) (drop ((i + 1) * batchSize) evs)"
    proof -
      have "(totalBatches - i) * batchSize = batchSize + (totalBatches - (i + 1)) * batchSize"
        using True by (simp add: Suc_diff_Suc[symmetric] del: Suc_diff_Suc mult_Suc)
           (metis Suc_diff_Suc mult_Suc)
      then show ?thesis
        by (simp add: take_add add.commute)
    qed
    show ?thesis
      unfolding process_batches.simps[of fmt cs evs batchSize totalBatches i]
      using True "1.IH"[OF True refl refl refl refl] 
      by (simp add: Let_def batch_is_take split)
  qed
qed


lemma ceiling_batches_cover:
  assumes "0 < b"
  shows "n \<le> nat \<lceil>real n / real b\<rceil> * b"
proof -
  have "0 \<le> real n / real b" by simp
  then have nn: "0 \<le> \<lceil>real n / real b\<rceil>" unfolding zero_le_ceiling by linarith
  have "real n = (real n / real b) * real b" using assms by simp
  also have "\<dots> \<le> real_of_int \<lceil>real n / real b\<rceil> * real b"
    by (intro mult_right_mono le_of_int_ceiling) simp
  also have "\<dots> = real (nat \<lceil>real n / real b\<rceil> * b)" using nn by simp
  finally show ?thesis by (simp only: of_nat_le_iff)
qed

lemma export_csv_is_csv_content: "export_csv fmt cs evs = csv_content fmt cs evs"
proof -
  define b :: nat where "b = (if length evs > 50000 then 5000
                       else if length evs > 10000 then 2000 else 1000)"
  have b: "0 < b" by (simp add: b_def)
  have "length evs \<le> nat \<lceil>real (length evs) / real b\<rceil> * b"
    using b by (rule ceiling_batches_cover)
  then have "process_batches fmt cs evs b (nat \<lceil>real (length evs) / real b\<rceil>) 0
               [join '','' (map header cs)]
             = join '','' (map header cs) # map (csv_row fmt cs) evs"
    by (simp add: process_batches_rows[OF b])
  then show ?thesis
    unfolding export_csv_def csv_content_def Let_def b_def[symmetric] by simp
qed


end
